theory Spec2Isabelle
  imports Main "HOL-Library.Word"
begin

section \<open>The title-language cache: lookup, analyse, store\<close>

text \<open>
  A shallow embedding of \<^verbatim>\<open>lambda_function.py\<close>: \<^verbatim>\<open>lambda_handler\<close>,
  \<^verbatim>\<open>get_record\<close>, \<^verbatim>\<open>process_with_openai\<close> and \<^verbatim>\<open>store_record\<close>.
  The DynamoDB table is explicit state, the calls to the collaborators are recorded in a
  log, and every \<^verbatim>\<open>raise\<close> is a value of a sum type.
\<close>

subsection \<open>Python values\<close>

text \<open>
  The values the program handles are those of JSON documents: the event, the reply of the
  analysis service after \<^verbatim>\<open>json.loads\<close>, and the items of the table. A float is
  its IEEE 754 double, a string is a list of code points below 256, a dict is an association
  list read with \<open>map_of\<close>.
\<close>

datatype pyval =
    PNone
  | PBool bool
  | PInt int
  | PFloat "64 word"
  | PStr string
  | PList "pyval list"
  | PDict "(string \<times> pyval) list"

type_synonym item = "(string \<times> pyval) list"

text \<open>Python's truth value, as \<^verbatim>\<open>not x\<close> and \<^verbatim>\<open>if x:\<close> test it.\<close>

fun truthy :: "pyval \<Rightarrow> bool" where
  "truthy PNone = False"
| "truthy (PBool b) = b"
| "truthy (PInt i) = (i \<noteq> 0)"
| "truthy (PFloat w) = (w \<noteq> 0 \<and> w \<noteq> 0x8000000000000000)"
| "truthy (PStr s) = (s \<noteq> [])"
| "truthy (PList xs) = (xs \<noteq> [])"
| "truthy (PDict d) = (d \<noteq> [])"

text \<open>\<^verbatim>\<open>d.get(k)\<close>: the value, or \<^verbatim>\<open>None\<close> when the key is missing.\<close>

definition dict_get :: "item \<Rightarrow> string \<Rightarrow> pyval" where
  "dict_get d k = (case map_of d k of None \<Rightarrow> PNone | Some v \<Rightarrow> v)"

subsection \<open>Library functions\<close>

text \<open>
  The functions of the Python library that the program calls on arbitrary data are
  parameters of the model: \<^verbatim>\<open>json.loads\<close> (\<open>None\<close> is
  \<^verbatim>\<open>JSONDecodeError\<close>), \<^verbatim>\<open>str\<close> on a value that is not a string,
  and the message of the \<^verbatim>\<open>TypeError\<close> that \<^verbatim>\<open>v["key"]\<close> raises on a
  value that is not a dict.
\<close>

record pylib =
  json_loads :: "string \<Rightarrow> pyval option"
  repr_of :: "pyval \<Rightarrow> string"
  subscript_error :: "pyval \<Rightarrow> string"

text \<open>\<^verbatim>\<open>str(v)\<close>, also what an f-string does with \<^verbatim>\<open>{v}\<close>.\<close>

fun py_str :: "pylib \<Rightarrow> pyval \<Rightarrow> string" where
  "py_str L (PStr s) = s"
| "py_str L v = repr_of L v"

text \<open>\<^verbatim>\<open>s.strip()\<close>: white space is removed at both ends.\<close>

definition isspace :: "char \<Rightarrow> bool" where
  "isspace c = ((of_char c :: nat) \<in> {9, 10, 11, 12, 13, 28, 29, 30, 31, 32, 133, 160})"

definition strip :: "string \<Rightarrow> string" where
  "strip s = rev (dropWhile isspace (rev (dropWhile isspace s)))"

text \<open>
  \<^verbatim>\<open>json.dumps(v)\<close>: the text is represented by the value it encodes; on the
  values above \<^verbatim>\<open>json.dumps\<close> does not raise.
\<close>

datatype json_text = Dumps pyval

definition json_dumps :: "pyval \<Rightarrow> json_text" where
  "json_dumps v = Dumps v"

subsection \<open>Exceptions\<close>

text \<open>
  An exception that travels up to \<^verbatim>\<open>lambda_handler\<close> is only ever read through
  \<^verbatim>\<open>str(e)\<close>. \<open>Raised m\<close> is an exception of any other class whose
  \<^verbatim>\<open>str\<close> is \<open>m\<close>.
\<close>

datatype exn =
    Exception string
  | KeyError string
  | TypeError string
  | Raised string

fun exn_str :: "exn \<Rightarrow> string" where
  "exn_str (Exception m) = m"
| "exn_str (KeyError k) = [CHR 0x27] @ k @ [CHR 0x27]"
| "exn_str (TypeError m) = m"
| "exn_str (Raised m) = m"

text \<open>\<^verbatim>\<open>data[k]\<close> for a string key.\<close>

fun subscript :: "pylib \<Rightarrow> pyval \<Rightarrow> string \<Rightarrow> exn + pyval" where
  "subscript L (PDict d) k = (case map_of d k of None \<Rightarrow> Inl (KeyError k) | Some v \<Rightarrow> Inr v)"
| "subscript L v k = Inl (TypeError (subscript_error L v))"

subsection \<open>The collaborators\<close>

text \<open>
  The table holds items; an item is found by its two key attributes, and
  \<^verbatim>\<open>put_item\<close> replaces the item that has the same key. A call to the table may
  fail: with botocore's \<^verbatim>\<open>ClientError\<close>, which carries
  \<^verbatim>\<open>e.response['Error']['Message']\<close>, or with any other exception. The chat
  completion either raises (while it is called or while the content of its first choice is
  read) or gives the content of the message.
\<close>

datatype store_fault = ClientError string | StoreRaises string

datatype chat_outcome = ChatRaises string | ChatContent string

record env =
  get_fault :: "store_fault option"
  put_fault :: "store_fault option"
  chat_create :: "string \<Rightarrow> (string \<times> string) list \<Rightarrow> chat_outcome"

datatype call =
    GetItem pyval pyval
  | ChatCreate string "(string \<times> string) list"
  | PutItem item

record world =
  table :: "item list"
  calls :: "call list"

definition item_key :: "item \<Rightarrow> pyval option \<times> pyval option" where
  "item_key it = (map_of it ''RecordID'', map_of it ''Title'')"

definition table_get :: "item list \<Rightarrow> pyval \<Rightarrow> pyval \<Rightarrow> item option" where
  "table_get T rid title = find (\<lambda>it. item_key it = (Some rid, Some title)) T"

definition table_put :: "item list \<Rightarrow> item \<Rightarrow> item list" where
  "table_put T it = it # filter (\<lambda>j. item_key j \<noteq> item_key it) T"

definition log_call :: "call \<Rightarrow> world \<Rightarrow> world" where
  "log_call c w = w\<lparr>calls := calls w @ [c]\<rparr>"

subsection \<open>The program\<close>

text \<open>\<^verbatim>\<open>get_record\<close>: \<^verbatim>\<open>response.get("Item")\<close>, the item or \<^verbatim>\<open>None\<close>.\<close>

definition get_record :: "env \<Rightarrow> world \<Rightarrow> pyval \<Rightarrow> pyval \<Rightarrow> (exn + pyval) \<times> world" where
  "get_record E w record_id title =
     (let w' = log_call (GetItem record_id title) w in
      case get_fault E of
        Some (ClientError m) \<Rightarrow> (Inl (Exception (''DynamoDB error: '' @ m)), w')
      | Some (StoreRaises m) \<Rightarrow> (Inl (Raised m), w')
      | None \<Rightarrow>
          (Inr (case table_get (table w') record_id title of
                  None \<Rightarrow> PNone
                | Some it \<Rightarrow> PDict it), w'))"

definition system_prompt :: string where
  "system_prompt = ''You are an expert language model trained to detect languages, provide transliterations, and generate translations for movie titles. Provide a confidence score between 0 and 1 for the language detection.''"

definition user_prompt :: "pylib \<Rightarrow> pyval \<Rightarrow> string" where
  "user_prompt L title =
     ''Given the title: '' @ [CHR 0x27] @ py_str L title @ [CHR 0x27] @
     '', detect the language both by name and ISO 639 language code, provide a transliteration into the Latin-1 character set, and translate it to English. Return the output in JSON format with keys: DetectedLanguage, ISO639LanguageCode, Confidence, Transliteration, and Translation. Do not include code block formatting.''"

definition chat_messages :: "pylib \<Rightarrow> pyval \<Rightarrow> (string \<times> string) list" where
  "chat_messages L title = [(''system'', system_prompt), (''user'', user_prompt L title)]"

definition process_with_openai :: "pylib \<Rightarrow> env \<Rightarrow> world \<Rightarrow> pyval \<Rightarrow> (exn + pyval) \<times> world" where
  "process_with_openai L E w title =
     (let w' = log_call (ChatCreate ''gpt-4o-mini'' (chat_messages L title)) w in
      case chat_create E ''gpt-4o-mini'' (chat_messages L title) of
        ChatRaises m \<Rightarrow> (Inl (Exception (''OpenAI API error: '' @ m)), w')
      | ChatContent c \<Rightarrow>
          (case json_loads L (strip c) of
             None \<Rightarrow>
               (Inl (Exception ''Failed to parse the response from OpenAI. Ensure the response is in JSON format.''), w')
           | Some parsed_result \<Rightarrow> (Inr parsed_result, w')))"

text \<open>
  The \<^verbatim>\<open>Item\<close> of \<^verbatim>\<open>store_record\<close>; its values are evaluated in the order
  of the dict display, before \<^verbatim>\<open>put_item\<close> is called.
\<close>

definition build_item :: "pylib \<Rightarrow> pyval \<Rightarrow> pyval \<Rightarrow> pyval \<Rightarrow> pyval \<Rightarrow> exn + item" where
  "build_item L record_id title original_language data =
     (case subscript L data ''DetectedLanguage'' of Inl e \<Rightarrow> Inl e | Inr lang \<Rightarrow>
     (case subscript L data ''ISO639LanguageCode'' of Inl e \<Rightarrow> Inl e | Inr code \<Rightarrow>
     (case subscript L data ''Confidence'' of Inl e \<Rightarrow> Inl e | Inr conf \<Rightarrow>
     (case subscript L data ''Transliteration'' of Inl e \<Rightarrow> Inl e | Inr translit \<Rightarrow>
     (case subscript L data ''Translation'' of Inl e \<Rightarrow> Inl e | Inr transl \<Rightarrow>
        Inr [(''RecordID'', record_id),
             (''Title'', title),
             (''OriginalLanguage'', original_language),
             (''DetectedLanguage'', lang),
             (''DetectedCode'', code),
             (''Confidence'', PStr (py_str L conf)),
             (''Transliteration'', translit),
             (''Translation'', transl)])))))"

definition store_record :: "pylib \<Rightarrow> env \<Rightarrow> world \<Rightarrow> pyval \<Rightarrow> pyval \<Rightarrow> pyval \<Rightarrow> pyval \<Rightarrow> (exn + unit) \<times> world" where
  "store_record L E w record_id title original_language data =
     (case build_item L record_id title original_language data of
        Inl e \<Rightarrow> (Inl e, w)
      | Inr it \<Rightarrow>
          (let w' = log_call (PutItem it) w in
           case put_fault E of
             Some (ClientError m) \<Rightarrow> (Inl (Exception (''DynamoDB error: '' @ m)), w')
           | Some (StoreRaises m) \<Rightarrow> (Inl (Raised m), w')
           | None \<Rightarrow> (Inr (), w'\<lparr>table := table_put (table w') it\<rparr>)))"

record response =
  statusCode :: int
  body :: json_text

definition error_body :: "string \<Rightarrow> json_text" where
  "error_body m = json_dumps (PDict [(''error'', PStr m)])"

definition message_body :: "string \<Rightarrow> pyval \<Rightarrow> json_text" where
  "message_body m d = json_dumps (PDict [(''message'', PStr m), (''data'', d)])"

text \<open>The body of the \<^verbatim>\<open>try\<close> in \<^verbatim>\<open>lambda_handler\<close>.\<close>

definition lambda_handler_try :: "pylib \<Rightarrow> env \<Rightarrow> world \<Rightarrow> item \<Rightarrow> (exn + response) \<times> world" where
  "lambda_handler_try L E w event =
     (let record_id = dict_get event ''RecordID'';
          title = dict_get event ''Title'';
          original_language = dict_get event ''OriginalLanguage''
      in
      if \<not> truthy record_id \<or> \<not> truthy title then
        (Inr \<lparr>statusCode = 400, body = error_body ''RecordID and Title are required.''\<rparr>, w)
      else
        case get_record E w record_id title of
          (Inl e, w1) \<Rightarrow> (Inl e, w1)
        | (Inr record, w1) \<Rightarrow>
            if truthy record then
              (Inr \<lparr>statusCode = 200, body = message_body ''Record found.'' record\<rparr>, w1)
            else
              (case process_with_openai L E w1 title of
                 (Inl e, w2) \<Rightarrow> (Inl e, w2)
               | (Inr openai_data, w2) \<Rightarrow>
                   (case store_record L E w2 record_id title original_language openai_data of
                      (Inl e, w3) \<Rightarrow> (Inl e, w3)
                    | (Inr u, w3) \<Rightarrow>
                        (Inr \<lparr>statusCode = 200,
                              body = message_body ''Record processed and stored.'' openai_data\<rparr>, w3))))"

text \<open>\<^verbatim>\<open>lambda_handler\<close>: the \<^verbatim>\<open>try\<close> with its \<^verbatim>\<open>except Exception\<close>.\<close>

definition lambda_handler :: "pylib \<Rightarrow> env \<Rightarrow> world \<Rightarrow> item \<Rightarrow> response \<times> world" where
  "lambda_handler L E w event =
     (case lambda_handler_try L E w event of
        (Inl e, w') \<Rightarrow> (\<lparr>statusCode = 501, body = error_body (exn_str e)\<rparr>, w')
      | (Inr r, w') \<Rightarrow> (r, w'))"


subsection \<open>Scenarios\<close>

text \<open>
  Concrete inputs for the examples below. The library functions are tabulated on the
  arguments that the scenarios pass to them: \<^verbatim>\<open>json.loads\<close> on four replies of
  the service (the reply \<open>refusal_content\<close> is in no row, it is not JSON),
  \<^verbatim>\<open>str\<close> on the doubles nearest to 0.95 and 0.87, and the messages of
  \<^verbatim>\<open>TypeError\<close> by type.
\<close>

definition scenario_title :: string where
  "scenario_title = ''La Vita '' @ [CHR 0xE8] @ '' Bella''"

definition scenario_event :: item where
  "scenario_event =
     [(''RecordID'', PStr ''7''), (''Title'', PStr scenario_title),
      (''OriginalLanguage'', PStr ''Italian'')]"

definition scenario_content :: string where
  \<open>scenario_content = ''{"DetectedLanguage": "Italian", "ISO639LanguageCode": "it", "Confidence": 0.95, "Transliteration": "La Vita e Bella", "Translation": "Life Is Beautiful"}''\<close>

definition scenario_data :: item where
  "scenario_data =
     [(''DetectedLanguage'', PStr ''Italian''), (''ISO639LanguageCode'', PStr ''it''),
      (''Confidence'', PFloat 0x3FEE666666666666),
      (''Transliteration'', PStr ''La Vita e Bella''),
      (''Translation'', PStr ''Life Is Beautiful'')]"

definition scenario_record :: item where
  "scenario_record =
     [(''RecordID'', PStr ''7''), (''Title'', PStr scenario_title),
      (''OriginalLanguage'', PStr ''Italian''),
      (''DetectedLanguage'', PStr ''Italian''), (''DetectedCode'', PStr ''it''),
      (''Confidence'', PStr ''0.95''),
      (''Transliteration'', PStr ''La Vita e Bella''),
      (''Translation'', PStr ''Life Is Beautiful'')]"

definition partial_content :: string where
  \<open>partial_content = ''{"DetectedLanguage": "Italian"}''\<close>

definition partial_data :: item where
  "partial_data = [(''DetectedLanguage'', PStr ''Italian'')]"

definition refusal_content :: string where
  "refusal_content = ''I cannot detect the language of this title.''"

definition amelie_event :: item where
  "amelie_event = [(''RecordID'', PStr ''42''), (''Title'', PStr ''Amelie'')]"

definition quoted_content :: string where
  \<open>quoted_content = ''{"DetectedLanguage": "French", "ISO639LanguageCode": "fr", "Confidence": "0.87", "Transliteration": "Amelie", "Translation": "Amelie"}''\<close>

definition quoted_data :: item where
  "quoted_data =
     [(''DetectedLanguage'', PStr ''French''), (''ISO639LanguageCode'', PStr ''fr''),
      (''Confidence'', PStr ''0.87''),
      (''Transliteration'', PStr ''Amelie''), (''Translation'', PStr ''Amelie'')]"

definition numeric_content :: string where
  \<open>numeric_content = ''{"DetectedLanguage": "French", "ISO639LanguageCode": "fr", "Confidence": 0.87, "Transliteration": "Amelie", "Translation": "Amelie"}''\<close>

definition numeric_data :: item where
  "numeric_data =
     [(''DetectedLanguage'', PStr ''French''), (''ISO639LanguageCode'', PStr ''fr''),
      (''Confidence'', PFloat 0x3FEBD70A3D70A3D7),
      (''Transliteration'', PStr ''Amelie''), (''Translation'', PStr ''Amelie'')]"

definition amelie_record :: item where
  "amelie_record =
     [(''RecordID'', PStr ''42''), (''Title'', PStr ''Amelie''),
      (''OriginalLanguage'', PNone),
      (''DetectedLanguage'', PStr ''French''), (''DetectedCode'', PStr ''fr''),
      (''Confidence'', PStr ''0.87''),
      (''Transliteration'', PStr ''Amelie''), (''Translation'', PStr ''Amelie'')]"

definition scenario_loads :: "string \<Rightarrow> pyval option" where
  "scenario_loads s =
     (if s = scenario_content then Some (PDict scenario_data)
      else if s = partial_content then Some (PDict partial_data)
      else if s = quoted_content then Some (PDict quoted_data)
      else if s = numeric_content then Some (PDict numeric_data)
      else None)"

fun scenario_repr :: "pyval \<Rightarrow> string" where
  "scenario_repr PNone = ''None''"
| "scenario_repr (PBool b) = (if b then ''True'' else ''False'')"
| "scenario_repr (PFloat w) =
     (if w = 0x3FEE666666666666 then ''0.95'' else if w = 0x3FEBD70A3D70A3D7 then ''0.87'' else [])"
| "scenario_repr v = []"

fun scenario_subscript_error :: "pyval \<Rightarrow> string" where
  "scenario_subscript_error PNone = [CHR 0x27] @ ''NoneType'' @ [CHR 0x27] @ '' object is not subscriptable''"
| "scenario_subscript_error (PBool b) = [CHR 0x27] @ ''bool'' @ [CHR 0x27] @ '' object is not subscriptable''"
| "scenario_subscript_error (PInt i) = [CHR 0x27] @ ''int'' @ [CHR 0x27] @ '' object is not subscriptable''"
| "scenario_subscript_error (PFloat w) = [CHR 0x27] @ ''float'' @ [CHR 0x27] @ '' object is not subscriptable''"
| "scenario_subscript_error (PStr s) = ''string indices must be integers, not '' @ [CHR 0x27] @ ''str'' @ [CHR 0x27]"
| "scenario_subscript_error (PList xs) = ''list indices must be integers or slices, not str''"
| "scenario_subscript_error (PDict d) = []"

definition scenario_lib :: pylib where
  "scenario_lib =
     \<lparr>json_loads = scenario_loads, repr_of = scenario_repr,
      subscript_error = scenario_subscript_error\<rparr>"

text \<open>The service answers with the content \<open>c\<close>, and the table does not fail.\<close>

definition service_replies :: "string \<Rightarrow> env" where
  "service_replies c =
     \<lparr>get_fault = None, put_fault = None, chat_create = (\<lambda>model messages. ChatContent c)\<rparr>"

definition empty_world :: world where
  "empty_world = \<lparr>table = [], calls = []\<rparr>"

section \<open>Properties\<close>

subsection \<open>The table and the parts of the handler\<close>

lemma table_get_put:
  "item_key it = (Some rid, Some title) \<Longrightarrow> table_get (table_put T it) rid title = Some it"
  by (simp add: table_get_def table_put_def)

lemma table_get_key:
  "table_get T rid title = Some it \<Longrightarrow> item_key it = (Some rid, Some title)"
  unfolding table_get_def by (auto simp: find_Some_iff)

lemma table_get_nonempty:
  "table_get T rid title = Some it \<Longrightarrow> it \<noteq> []"
  by (auto dest!: table_get_key simp: item_key_def)

lemma strip_id:
  assumes "s \<noteq> []" "\<not> isspace (hd s)" "\<not> isspace (last s)"
  shows "strip s = s"
proof -
  have "dropWhile isspace s = s"
    using assms by (simp add: dropWhile_eq_self_iff)
  moreover have "dropWhile isspace (rev s) = rev s"
    using assms by (simp add: dropWhile_eq_self_iff hd_rev)
  ultimately show ?thesis
    by (simp add: strip_def)
qed

lemma handler_invalid:
  assumes "\<not> truthy (dict_get event ''RecordID'') \<or> \<not> truthy (dict_get event ''Title'')"
  shows "lambda_handler L E w event =
           (\<lparr>statusCode = 400, body = error_body ''RecordID and Title are required.''\<rparr>, w)"
  using assms by (auto simp: lambda_handler_def lambda_handler_try_def)

lemma get_record_hit:
  assumes "get_fault E = None" "table_get (table w) rid title = Some r"
  shows "get_record E w rid title = (Inr (PDict r), log_call (GetItem rid title) w)"
  using assms by (simp add: get_record_def log_call_def)

lemma get_record_miss:
  assumes "get_fault E = None" "table_get (table w) rid title = None"
  shows "get_record E w rid title = (Inr PNone, log_call (GetItem rid title) w)"
  using assms by (simp add: get_record_def log_call_def)

lemma get_record_fault:
  assumes "get_fault E = Some f"
  shows "get_record E w rid title =
           (Inl (case f of ClientError m \<Rightarrow> Exception (''DynamoDB error: '' @ m)
                         | StoreRaises m \<Rightarrow> Raised m), log_call (GetItem rid title) w)"
  using assms by (simp add: get_record_def split: store_fault.splits)

lemma handler_hit:
  assumes "truthy (dict_get event ''RecordID'')" "truthy (dict_get event ''Title'')"
    and "get_fault E = None"
    and "table_get (table w) (dict_get event ''RecordID'') (dict_get event ''Title'') = Some r"
  shows "lambda_handler L E w event =
           (\<lparr>statusCode = 200, body = message_body ''Record found.'' (PDict r)\<rparr>,
            log_call (GetItem (dict_get event ''RecordID'') (dict_get event ''Title'')) w)"
  using assms table_get_nonempty[OF assms(4)]
  by (simp add: lambda_handler_def lambda_handler_try_def get_record_hit)

lemma handler_get_fault:
  assumes "truthy (dict_get event ''RecordID'')" "truthy (dict_get event ''Title'')"
    and "get_fault E = Some f"
  shows "lambda_handler_try L E w event =
           (Inl (case f of ClientError m \<Rightarrow> Exception (''DynamoDB error: '' @ m)
                         | StoreRaises m \<Rightarrow> Raised m),
            log_call (GetItem (dict_get event ''RecordID'') (dict_get event ''Title'')) w)"
  using assms by (simp add: lambda_handler_try_def get_record_fault)

lemma handler_miss:
  assumes "truthy (dict_get event ''RecordID'')" "truthy (dict_get event ''Title'')"
    and "get_fault E = None"
    and "table_get (table w) (dict_get event ''RecordID'') (dict_get event ''Title'') = None"
  shows "lambda_handler_try L E w event =
     (case process_with_openai L E
             (log_call (GetItem (dict_get event ''RecordID'') (dict_get event ''Title'')) w)
             (dict_get event ''Title'') of
        (Inl e, w2) \<Rightarrow> (Inl e, w2)
      | (Inr openai_data, w2) \<Rightarrow>
          (case store_record L E w2 (dict_get event ''RecordID'') (dict_get event ''Title'')
                  (dict_get event ''OriginalLanguage'') openai_data of
             (Inl e, w3) \<Rightarrow> (Inl e, w3)
           | (Inr u, w3) \<Rightarrow>
               (Inr \<lparr>statusCode = 200,
                     body = message_body ''Record processed and stored.'' openai_data\<rparr>, w3)))"
  using assms by (simp add: lambda_handler_try_def get_record_miss Let_def)

lemma process_ok:
  assumes "chat_create E ''gpt-4o-mini'' (chat_messages L title) = ChatContent c"
    and "json_loads L (strip c) = Some data"
  shows "process_with_openai L E w title =
           (Inr data, log_call (ChatCreate ''gpt-4o-mini'' (chat_messages L title)) w)"
  using assms by (simp add: process_with_openai_def)

lemma process_not_json:
  assumes "chat_create E ''gpt-4o-mini'' (chat_messages L title) = ChatContent c"
    and "json_loads L (strip c) = None"
  shows "process_with_openai L E w title =
           (Inl (Exception ''Failed to parse the response from OpenAI. Ensure the response is in JSON format.''),
            log_call (ChatCreate ''gpt-4o-mini'' (chat_messages L title)) w)"
  using assms by (simp add: process_with_openai_def)

lemma process_raises:
  assumes "chat_create E ''gpt-4o-mini'' (chat_messages L title) = ChatRaises m"
  shows "process_with_openai L E w title =
           (Inl (Exception (''OpenAI API error: '' @ m)),
            log_call (ChatCreate ''gpt-4o-mini'' (chat_messages L title)) w)"
  using assms by (simp add: process_with_openai_def)

lemma build_item_ok:
  assumes "map_of d ''DetectedLanguage'' = Some lang"
    and "map_of d ''ISO639LanguageCode'' = Some code"
    and "map_of d ''Confidence'' = Some conf"
    and "map_of d ''Transliteration'' = Some translit"
    and "map_of d ''Translation'' = Some transl"
  shows "build_item L rid title ol (PDict d) =
           Inr [(''RecordID'', rid), (''Title'', title), (''OriginalLanguage'', ol),
                (''DetectedLanguage'', lang), (''DetectedCode'', code),
                (''Confidence'', PStr (py_str L conf)),
                (''Transliteration'', translit), (''Translation'', transl)]"
  using assms by (simp add: build_item_def)

lemma store_ok:
  assumes "build_item L rid title ol data = Inr it" "put_fault E = None"
  shows "store_record L E w rid title ol data =
           (Inr (), (log_call (PutItem it) w)\<lparr>table := table_put (table w) it\<rparr>)"
  using assms by (simp add: store_record_def log_call_def)

lemma store_fault:
  assumes "build_item L rid title ol data = Inr it" "put_fault E = Some f"
  shows "store_record L E w rid title ol data =
           (Inl (case f of ClientError m \<Rightarrow> Exception (''DynamoDB error: '' @ m)
                         | StoreRaises m \<Rightarrow> Raised m), log_call (PutItem it) w)"
  using assms by (simp add: store_record_def log_call_def split: store_fault.splits)

lemma store_build_fails:
  assumes "build_item L rid title ol data = Inl e"
  shows "store_record L E w rid title ol data = (Inl e, w)"
  using assms by (simp add: store_record_def)

subsection \<open>The scenarios, evaluated\<close>

lemma strip_scenario_content: "strip scenario_content = scenario_content"
  by (rule strip_id) (simp_all add: scenario_content_def isspace_def)


lemma strip_quoted_content: "strip quoted_content = quoted_content"
  by (rule strip_id) (simp_all add: quoted_content_def isspace_def)


lemma strip_refusal_content: "strip refusal_content = refusal_content"
  by (rule strip_id) (simp_all add: refusal_content_def isspace_def)

lemma loads_scenario_content: "json_loads scenario_lib (strip scenario_content) = Some (PDict scenario_data)"
  by (simp add: strip_scenario_content scenario_lib_def scenario_loads_def)


lemma loads_quoted_content: "json_loads scenario_lib (strip quoted_content) = Some (PDict quoted_data)"
  by (simp add: strip_quoted_content scenario_lib_def scenario_loads_def)
     (simp add: partial_content_def scenario_content_def quoted_content_def)


lemma loads_refusal_content: "json_loads scenario_lib (strip refusal_content) = None"
  by (simp add: strip_refusal_content scenario_lib_def scenario_loads_def)
     (simp add: partial_content_def scenario_content_def quoted_content_def numeric_content_def
        refusal_content_def)

lemma scenario_event_fields:
  "dict_get scenario_event ''RecordID'' = PStr ''7''"
  "dict_get scenario_event ''Title'' = PStr scenario_title"
  "dict_get scenario_event ''OriginalLanguage'' = PStr ''Italian''"
  by (simp_all add: scenario_event_def dict_get_def)

lemma amelie_event_fields:
  "dict_get amelie_event ''RecordID'' = PStr ''42''"
  "dict_get amelie_event ''Title'' = PStr ''Amelie''"
  "dict_get amelie_event ''OriginalLanguage'' = PNone"
  by (simp_all add: amelie_event_def dict_get_def)

lemma service_replies_fields:
  "get_fault (service_replies c) = None"
  "put_fault (service_replies c) = None"
  "chat_create (service_replies c) model messages = ChatContent c"
  by (simp_all add: service_replies_def)

lemma empty_world_fields:
  "table empty_world = []" "calls empty_world = []" "table_get [] rid title = None"
  by (simp_all add: empty_world_def table_get_def)

lemma handler_miss_ok:
  fixes event :: item
  defines "rid \<equiv> dict_get event ''RecordID''"
    and "title \<equiv> dict_get event ''Title''"
    and "ol \<equiv> dict_get event ''OriginalLanguage''"
  assumes valid: "truthy rid" "truthy title"
    and lookup: "get_fault E = None" "table_get (table w) rid title = None"
    and reply: "chat_create E ''gpt-4o-mini'' (chat_messages L title) = ChatContent c"
    and parsed: "json_loads L (strip c) = Some data"
    and built: "build_item L rid title ol data = Inr it"
    and written: "put_fault E = None"
  shows "lambda_handler L E w event =
           (\<lparr>statusCode = 200, body = message_body ''Record processed and stored.'' data\<rparr>,
            w\<lparr>table := table_put (table w) it,
              calls := calls w @
                [GetItem rid title, ChatCreate ''gpt-4o-mini'' (chat_messages L title),
                 PutItem it]\<rparr>)"
proof -
  let ?w1 = "log_call (GetItem rid title) w"
  let ?w2 = "log_call (ChatCreate ''gpt-4o-mini'' (chat_messages L title)) ?w1"
  have m: "lambda_handler_try L E w event =
     (case process_with_openai L E ?w1 title of
        (Inl e, w2) \<Rightarrow> (Inl e, w2)
      | (Inr openai_data, w2) \<Rightarrow>
          (case store_record L E w2 rid title ol openai_data of
             (Inl e, w3) \<Rightarrow> (Inl e, w3)
           | (Inr u, w3) \<Rightarrow>
               (Inr \<lparr>statusCode = 200,
                     body = message_body ''Record processed and stored.'' openai_data\<rparr>, w3)))"
    using valid lookup unfolding rid_def title_def ol_def by (rule handler_miss)
  have p: "process_with_openai L E ?w1 title = (Inr data, ?w2)"
    by (rule process_ok[OF reply parsed])
  have s: "store_record L E ?w2 rid title ol data =
             (Inr (), (log_call (PutItem it) ?w2)\<lparr>table := table_put (table ?w2) it\<rparr>)"
    by (rule store_ok[OF built written])
  have "lambda_handler_try L E w event =
          (Inr \<lparr>statusCode = 200,
                body = message_body ''Record processed and stored.'' data\<rparr>,
           (log_call (PutItem it) ?w2)\<lparr>table := table_put (table ?w2) it\<rparr>)"
    by (simp only: m p s prod.case sum.case)
  then show ?thesis
    by (simp add: lambda_handler_def log_call_def)
qed

lemma scenario_title_nonempty: "scenario_title \<noteq> []"
  by (simp add: scenario_title_def)

lemma scenario_build:
  "build_item scenario_lib (PStr ''7'') (PStr scenario_title) (PStr ''Italian'')
     (PDict scenario_data) = Inr scenario_record"
  by (simp add: build_item_def scenario_data_def scenario_record_def scenario_lib_def)

lemma scenario_run:
  "lambda_handler scenario_lib (service_replies scenario_content) empty_world scenario_event =
     (\<lparr>statusCode = 200,
       body = message_body ''Record processed and stored.'' (PDict scenario_data)\<rparr>,
      \<lparr>table = [scenario_record],
       calls = [GetItem (PStr ''7'') (PStr scenario_title),
                ChatCreate ''gpt-4o-mini'' (chat_messages scenario_lib (PStr scenario_title)),
                PutItem scenario_record]\<rparr>)"
proof -
  have "lambda_handler scenario_lib (service_replies scenario_content) empty_world scenario_event =
     (\<lparr>statusCode = 200,
       body = message_body ''Record processed and stored.'' (PDict scenario_data)\<rparr>,
      empty_world\<lparr>table := table_put (table empty_world) scenario_record,
        calls := calls empty_world @
          [GetItem (dict_get scenario_event ''RecordID'') (dict_get scenario_event ''Title''),
           ChatCreate ''gpt-4o-mini''
             (chat_messages scenario_lib (dict_get scenario_event ''Title'')),
           PutItem scenario_record]\<rparr>)"
    by (rule handler_miss_ok[where c = scenario_content])
       (simp_all add: scenario_event_fields service_replies_fields empty_world_fields
          loads_scenario_content scenario_build scenario_title_nonempty)
  then show ?thesis
    by (simp add: scenario_event_fields empty_world_def table_put_def)
qed

lemma handler_miss_error:
  fixes event :: item
  defines "rid \<equiv> dict_get event ''RecordID''"
    and "title \<equiv> dict_get event ''Title''"
  assumes valid: "truthy rid" "truthy title"
    and lookup: "get_fault E = None" "table_get (table w) rid title = None"
    and fails: "process_with_openai L E (log_call (GetItem rid title) w) title = (Inl e, w2)"
  shows "lambda_handler L E w event = (\<lparr>statusCode = 501, body = error_body (exn_str e)\<rparr>, w2)"
  using handler_miss[OF valid[unfolded rid_def title_def] lookup[unfolded rid_def title_def], of L]
    fails
  by (simp add: lambda_handler_def rid_def title_def)

lemma handler_miss_not_json:
  fixes event :: item
  defines "rid \<equiv> dict_get event ''RecordID''"
    and "title \<equiv> dict_get event ''Title''"
  assumes valid: "truthy rid" "truthy title"
    and lookup: "get_fault E = None" "table_get (table w) rid title = None"
    and reply: "chat_create E ''gpt-4o-mini'' (chat_messages L title) = ChatContent c"
    and parsed: "json_loads L (strip c) = None"
  shows "lambda_handler L E w event =
           (\<lparr>statusCode = 501,
             body = error_body ''Failed to parse the response from OpenAI. Ensure the response is in JSON format.''\<rparr>,
            w\<lparr>calls := calls w @
              [GetItem rid title, ChatCreate ''gpt-4o-mini'' (chat_messages L title)]\<rparr>)"
  using handler_miss_error[OF valid[unfolded rid_def title_def] lookup[unfolded rid_def title_def]
      process_not_json[OF reply parsed, unfolded title_def]]
  by (simp add: log_call_def rid_def title_def)

lemma handler_miss_raises:
  fixes event :: item
  defines "rid \<equiv> dict_get event ''RecordID''"
    and "title \<equiv> dict_get event ''Title''"
  assumes valid: "truthy rid" "truthy title"
    and lookup: "get_fault E = None" "table_get (table w) rid title = None"
    and reply: "chat_create E ''gpt-4o-mini'' (chat_messages L title) = ChatRaises m"
  shows "lambda_handler L E w event =
           (\<lparr>statusCode = 501, body = error_body (''OpenAI API error: '' @ m)\<rparr>,
            w\<lparr>calls := calls w @
              [GetItem rid title, ChatCreate ''gpt-4o-mini'' (chat_messages L title)]\<rparr>)"
  using handler_miss_error[OF valid[unfolded rid_def title_def] lookup[unfolded rid_def title_def]
      process_raises[OF reply[unfolded title_def]]]
  by (simp add: log_call_def rid_def title_def)

lemma handler_miss_stored:
  fixes event :: item
  defines "rid \<equiv> dict_get event ''RecordID''"
    and "title \<equiv> dict_get event ''Title''"
    and "ol \<equiv> dict_get event ''OriginalLanguage''"
  assumes valid: "truthy rid" "truthy title"
    and lookup: "get_fault E = None" "table_get (table w) rid title = None"
    and reply: "chat_create E ''gpt-4o-mini'' (chat_messages L title) = ChatContent c"
    and parsed: "json_loads L (strip c) = Some data"
    and store: "store_record L E
                  (w\<lparr>calls := calls w @
                     [GetItem rid title, ChatCreate ''gpt-4o-mini'' (chat_messages L title)]\<rparr>)
                  rid title ol data = (Inl e, w3)"
  shows "lambda_handler L E w event = (\<lparr>statusCode = 501, body = error_body (exn_str e)\<rparr>, w3)"
proof -
  let ?w1 = "log_call (GetItem rid title) w"
  let ?w2 = "log_call (ChatCreate ''gpt-4o-mini'' (chat_messages L title)) ?w1"
  have m: "lambda_handler_try L E w event =
     (case process_with_openai L E ?w1 title of
        (Inl e, w2) \<Rightarrow> (Inl e, w2)
      | (Inr openai_data, w2) \<Rightarrow>
          (case store_record L E w2 rid title ol openai_data of
             (Inl e, w3) \<Rightarrow> (Inl e, w3)
           | (Inr u, w3) \<Rightarrow>
               (Inr \<lparr>statusCode = 200,
                     body = message_body ''Record processed and stored.'' openai_data\<rparr>, w3)))"
    using valid lookup unfolding rid_def title_def ol_def by (rule handler_miss)
  have p: "process_with_openai L E ?w1 title = (Inr data, ?w2)"
    by (rule process_ok[OF reply parsed])
  have w2: "?w2 = w\<lparr>calls := calls w @
              [GetItem rid title, ChatCreate ''gpt-4o-mini'' (chat_messages L title)]\<rparr>"
    by (simp add: log_call_def)
  have "lambda_handler_try L E w event = (Inl e, w3)"
    by (simp only: m p w2 store prod.case sum.case)
  then show ?thesis
    by (simp add: lambda_handler_def)
qed

lemma handler_miss_build_fails:
  fixes event :: item
  defines "rid \<equiv> dict_get event ''RecordID''"
    and "title \<equiv> dict_get event ''Title''"
  assumes valid: "truthy rid" "truthy title"
    and lookup: "get_fault E = None" "table_get (table w) rid title = None"
    and reply: "chat_create E ''gpt-4o-mini'' (chat_messages L title) = ChatContent c"
    and parsed: "json_loads L (strip c) = Some data"
    and built: "build_item L rid title (dict_get event ''OriginalLanguage'') data = Inl e"
  shows "lambda_handler L E w event =
           (\<lparr>statusCode = 501, body = error_body (exn_str e)\<rparr>,
            w\<lparr>calls := calls w @
              [GetItem rid title, ChatCreate ''gpt-4o-mini'' (chat_messages L title)]\<rparr>)"
  unfolding rid_def title_def
  by (rule handler_miss_stored[OF valid[unfolded rid_def title_def]
        lookup[unfolded rid_def title_def] reply[unfolded title_def] parsed
        store_build_fails[OF built[unfolded rid_def title_def]]])

lemma handler_miss_put_fault:
  fixes event :: item
  defines "rid \<equiv> dict_get event ''RecordID''"
    and "title \<equiv> dict_get event ''Title''"
  assumes valid: "truthy rid" "truthy title"
    and lookup: "get_fault E = None" "table_get (table w) rid title = None"
    and reply: "chat_create E ''gpt-4o-mini'' (chat_messages L title) = ChatContent c"
    and parsed: "json_loads L (strip c) = Some data"
    and built: "build_item L rid title (dict_get event ''OriginalLanguage'') data = Inr it"
    and fault: "put_fault E = Some f"
  shows "lambda_handler L E w event =
           (\<lparr>statusCode = 501,
             body = error_body (case f of ClientError m \<Rightarrow> ''DynamoDB error: '' @ m
                                        | StoreRaises m \<Rightarrow> m)\<rparr>,
            w\<lparr>calls := calls w @
              [GetItem rid title, ChatCreate ''gpt-4o-mini'' (chat_messages L title),
               PutItem it]\<rparr>)"
  using handler_miss_stored[OF valid[unfolded rid_def title_def]
        lookup[unfolded rid_def title_def] reply[unfolded title_def] parsed
        store_fault[OF built[unfolded rid_def title_def] fault]]
  by (simp add: log_call_def rid_def title_def split: store_fault.splits)


lemma build_item_not_dict:
  assumes "\<forall>d. data \<noteq> PDict d"
  shows "build_item L rid title ol data = Inl (TypeError (subscript_error L data))"
  using assms by (cases data) (simp_all add: build_item_def)

lemma build_item_fields:
  assumes "build_item L rid title ol data = Inr it"
  shows "item_key it = (Some rid, Some title)"
    and "map_of it ''OriginalLanguage'' = Some ol"
    and "\<exists>d conf. data = PDict d \<and> map_of d ''Confidence'' = Some conf
           \<and> map_of it ''Confidence'' = Some (PStr (py_str L conf))"
proof -
  obtain d where d: "data = PDict d"
    using assms build_item_not_dict[of data L rid title ol] by auto
  show "item_key it = (Some rid, Some title)"
    using assms unfolding d
    by (auto simp: build_item_def item_key_def split: option.splits)
  show "map_of it ''OriginalLanguage'' = Some ol"
    using assms unfolding d
    by (auto simp: build_item_def split: option.splits)
  show "\<exists>d conf. data = PDict d \<and> map_of d ''Confidence'' = Some conf
           \<and> map_of it ''Confidence'' = Some (PStr (py_str L conf))"
    using assms unfolding d
    by (auto simp: build_item_def split: option.splits)
qed

lemma amelie_refusal_run:
  "lambda_handler scenario_lib (service_replies refusal_content) empty_world amelie_event =
     (\<lparr>statusCode = 501,
       body = error_body ''Failed to parse the response from OpenAI. Ensure the response is in JSON format.''\<rparr>,
      \<lparr>table = [],
       calls = [GetItem (PStr ''42'') (PStr ''Amelie''),
                ChatCreate ''gpt-4o-mini'' (chat_messages scenario_lib (PStr ''Amelie''))]\<rparr>)"
  using handler_miss_not_json[of amelie_event "service_replies refusal_content" empty_world
      scenario_lib refusal_content]
  by (simp add: amelie_event_fields service_replies_fields empty_world_fields
        loads_refusal_content)


lemma amelie_build:
  "build_item scenario_lib (PStr ''42'') (PStr ''Amelie'') PNone (PDict quoted_data) =
     Inr amelie_record"
  by (simp add: build_item_def quoted_data_def amelie_record_def)


lemma amelie_record_fields:
  "item_key amelie_record = (Some (PStr ''42''), Some (PStr ''Amelie''))"
  "map_of amelie_record ''OriginalLanguage'' = Some PNone"
  "map_of amelie_record ''Confidence'' = Some (PStr ''0.87'')"
  by (simp_all add: amelie_record_def item_key_def)

lemma handler_lookup_fails:
  assumes "truthy (dict_get event ''RecordID'')" "truthy (dict_get event ''Title'')"
    and "get_fault E = Some f"
  shows "lambda_handler L E w event =
         (\<lparr>statusCode = 501,
           body = error_body (case f of ClientError m \<Rightarrow> ''DynamoDB error: '' @ m
                                      | StoreRaises m \<Rightarrow> m)\<rparr>,
          w\<lparr>calls := calls w @
            [GetItem (dict_get event ''RecordID'') (dict_get event ''Title'')]\<rparr>)"
  using handler_get_fault[OF assms, of L w]
  by (simp add: lambda_handler_def log_call_def split: store_fault.splits)



lemma handler_cases [consumes 5, case_names invalid lookup_fails hit service_raises not_json no_item write_fails stored]:
  fixes event :: item
  assumes "rid = dict_get event ''RecordID''" "title = dict_get event ''Title''"
    and "ol = dict_get event ''OriginalLanguage''"
    and "G = GetItem rid title" "C = ChatCreate ''gpt-4o-mini'' (chat_messages L title)"
  obtains
    (invalid) "\<not> truthy rid \<or> \<not> truthy title"
      "lambda_handler L E w event =
         (\<lparr>statusCode = 400, body = error_body ''RecordID and Title are required.''\<rparr>, w)"
  | (lookup_fails) f where "truthy rid" "truthy title" "get_fault E = Some f"
      "lambda_handler L E w event =
         (\<lparr>statusCode = 501,
           body = error_body (case f of ClientError m \<Rightarrow> ''DynamoDB error: '' @ m
                                      | StoreRaises m \<Rightarrow> m)\<rparr>,
          w\<lparr>calls := calls w @ [G]\<rparr>)"
  | (hit) r where "truthy rid" "truthy title" "get_fault E = None"
      "table_get (table w) rid title = Some r"
      "lambda_handler L E w event =
         (\<lparr>statusCode = 200, body = message_body ''Record found.'' (PDict r)\<rparr>,
          w\<lparr>calls := calls w @ [G]\<rparr>)"
  | (service_raises) m where "truthy rid" "truthy title" "get_fault E = None"
      "table_get (table w) rid title = None"
      "chat_create E ''gpt-4o-mini'' (chat_messages L title) = ChatRaises m"
      "lambda_handler L E w event =
         (\<lparr>statusCode = 501, body = error_body (''OpenAI API error: '' @ m)\<rparr>,
          w\<lparr>calls := calls w @ [G, C]\<rparr>)"
  | (not_json) c where "truthy rid" "truthy title" "get_fault E = None"
      "table_get (table w) rid title = None"
      "chat_create E ''gpt-4o-mini'' (chat_messages L title) = ChatContent c"
      "json_loads L (strip c) = None"
      "lambda_handler L E w event =
         (\<lparr>statusCode = 501,
           body = error_body ''Failed to parse the response from OpenAI. Ensure the response is in JSON format.''\<rparr>,
          w\<lparr>calls := calls w @ [G, C]\<rparr>)"
  | (no_item) c data e where "truthy rid" "truthy title" "get_fault E = None"
      "table_get (table w) rid title = None"
      "chat_create E ''gpt-4o-mini'' (chat_messages L title) = ChatContent c"
      "json_loads L (strip c) = Some data"
      "build_item L rid title ol data = Inl e"
      "lambda_handler L E w event =
         (\<lparr>statusCode = 501, body = error_body (exn_str e)\<rparr>,
          w\<lparr>calls := calls w @ [G, C]\<rparr>)"
  | (write_fails) c data it f where "truthy rid" "truthy title" "get_fault E = None"
      "table_get (table w) rid title = None"
      "chat_create E ''gpt-4o-mini'' (chat_messages L title) = ChatContent c"
      "json_loads L (strip c) = Some data"
      "build_item L rid title ol data = Inr it" "put_fault E = Some f"
      "lambda_handler L E w event =
         (\<lparr>statusCode = 501,
           body = error_body (case f of ClientError m \<Rightarrow> ''DynamoDB error: '' @ m
                                      | StoreRaises m \<Rightarrow> m)\<rparr>,
          w\<lparr>calls := calls w @ [G, C, PutItem it]\<rparr>)"
  | (stored) c data it where "truthy rid" "truthy title" "get_fault E = None"
      "table_get (table w) rid title = None"
      "chat_create E ''gpt-4o-mini'' (chat_messages L title) = ChatContent c"
      "json_loads L (strip c) = Some data"
      "build_item L rid title ol data = Inr it" "put_fault E = None"
      "lambda_handler L E w event =
         (\<lparr>statusCode = 200, body = message_body ''Record processed and stored.'' data\<rparr>,
          w\<lparr>table := table_put (table w) it, calls := calls w @ [G, C, PutItem it]\<rparr>)"
proof (cases "truthy rid \<and> truthy title")
  case False
  then have "\<not> truthy rid \<or> \<not> truthy title" by simp
  then show ?thesis
    using handler_invalid[of event L E w] assms(1,2) by (intro invalid) simp_all
next
  case valid: True
  then have v: "truthy (dict_get event ''RecordID'')" "truthy (dict_get event ''Title'')"
    using assms(1,2) by simp_all
  show ?thesis
  proof (cases "get_fault E")
    case (Some f)
    have "lambda_handler L E w event =
         (\<lparr>statusCode = 501,
           body = error_body (case f of ClientError m \<Rightarrow> ''DynamoDB error: '' @ m
                                      | StoreRaises m \<Rightarrow> m)\<rparr>,
          w\<lparr>calls := calls w @ [G]\<rparr>)"
      using handler_get_fault[OF v Some, of L w] assms(1,2,4)
      by (simp add: lambda_handler_def log_call_def split: store_fault.splits)
    with valid Some show ?thesis by (intro lookup_fails) simp_all
  next
    case nofault: None
    show ?thesis
    proof (cases "table_get (table w) rid title")
      case (Some r)
      have "lambda_handler L E w event =
         (\<lparr>statusCode = 200, body = message_body ''Record found.'' (PDict r)\<rparr>,
          w\<lparr>calls := calls w @ [G]\<rparr>)"
        using handler_hit[OF v nofault Some[unfolded assms(1,2)], of L] assms(1,2,4)
        by (simp add: log_call_def)
      with valid nofault Some show ?thesis by (intro hit) simp_all
    next
      case miss: None
      note look = nofault miss[unfolded assms(1,2)]
      show ?thesis
      proof (cases "chat_create E ''gpt-4o-mini'' (chat_messages L title)")
        case (ChatRaises m)
        from handler_miss_raises[OF v look ChatRaises[unfolded assms(2)]]
        have "lambda_handler L E w event =
           (\<lparr>statusCode = 501, body = error_body (''OpenAI API error: '' @ m)\<rparr>,
            w\<lparr>calls := calls w @ [G, C]\<rparr>)"
          using assms by simp
        with valid nofault miss ChatRaises show ?thesis by (intro service_raises) simp_all
      next
        case (ChatContent c)
        note reply = ChatContent[unfolded assms(2)]
        show ?thesis
        proof (cases "json_loads L (strip c)")
          case None
          from handler_miss_not_json[OF v look reply None]
          have "lambda_handler L E w event =
             (\<lparr>statusCode = 501,
               body = error_body ''Failed to parse the response from OpenAI. Ensure the response is in JSON format.''\<rparr>,
              w\<lparr>calls := calls w @ [G, C]\<rparr>)"
            using assms by simp
          with valid nofault miss ChatContent None show ?thesis by (intro not_json) simp_all
        next
          case (Some data)
          show ?thesis
          proof (cases "build_item L rid title ol data")
            case (Inl e)
            from handler_miss_build_fails[OF v look reply Some Inl[unfolded assms(1,2,3)]]
            have "lambda_handler L E w event =
               (\<lparr>statusCode = 501, body = error_body (exn_str e)\<rparr>,
                w\<lparr>calls := calls w @ [G, C]\<rparr>)"
              using assms by simp
            with valid nofault miss ChatContent Some Inl show ?thesis
              by (intro no_item) simp_all
          next
            case (Inr it)
            note built = Inr[unfolded assms(1,2,3)]
            show ?thesis
            proof (cases "put_fault E")
              case None
              from handler_miss_ok[OF v look reply Some built None]
              have "lambda_handler L E w event =
                 (\<lparr>statusCode = 200,
                   body = message_body ''Record processed and stored.'' data\<rparr>,
                  w\<lparr>table := table_put (table w) it,
                    calls := calls w @ [G, C, PutItem it]\<rparr>)"
                using assms by simp
              with valid nofault miss ChatContent Some Inr None show ?thesis
                by (intro stored) simp_all
            next
              case (Some f)
              from handler_miss_put_fault[OF v look reply \<open>json_loads L (strip c) = Some data\<close>
                  built Some]
              have "lambda_handler L E w event =
                 (\<lparr>statusCode = 501,
                   body = error_body (case f of ClientError m \<Rightarrow> ''DynamoDB error: '' @ m
                                              | StoreRaises m \<Rightarrow> m)\<rparr>,
                  w\<lparr>calls := calls w @ [G, C, PutItem it]\<rparr>)"
                using assms by simp
              with valid nofault miss ChatContent \<open>json_loads L (strip c) = Some data\<close> Inr Some
              show ?thesis
                by (intro write_fails) simp_all
            qed
          qed
        qed
      qed
    qed
  qed
qed

lemma amelie_run:
  "lambda_handler scenario_lib (service_replies quoted_content) empty_world amelie_event =
     (\<lparr>statusCode = 200,
       body = message_body ''Record processed and stored.'' (PDict quoted_data)\<rparr>,
      \<lparr>table = [amelie_record],
       calls = [GetItem (PStr ''42'') (PStr ''Amelie''),
                ChatCreate ''gpt-4o-mini'' (chat_messages scenario_lib (PStr ''Amelie'')),
                PutItem amelie_record]\<rparr>)"
  using handler_miss_ok[of amelie_event "service_replies quoted_content" empty_world
      scenario_lib quoted_content "PDict quoted_data" amelie_record]
  by (simp add: amelie_event_fields service_replies_fields empty_world_fields
        loads_quoted_content amelie_build)
     (simp add: empty_world_def table_put_def)


lemma amelie_write_fails_run:
  "lambda_handler scenario_lib
     ((service_replies quoted_content)\<lparr>put_fault := Some (ClientError ''Throttled'')\<rparr>)
     empty_world amelie_event =
     (\<lparr>statusCode = 501, body = error_body ''DynamoDB error: Throttled''\<rparr>,
      \<lparr>table = [],
       calls = [GetItem (PStr ''42'') (PStr ''Amelie''),
                ChatCreate ''gpt-4o-mini'' (chat_messages scenario_lib (PStr ''Amelie'')),
                PutItem amelie_record]\<rparr>)"
  using handler_miss_put_fault[of amelie_event
      "(service_replies quoted_content)\<lparr>put_fault := Some (ClientError ''Throttled'')\<rparr>"
      empty_world scenario_lib quoted_content "PDict quoted_data" amelie_record
      "ClientError ''Throttled''"]
  by (simp add: amelie_event_fields service_replies_fields empty_world_fields
        loads_quoted_content amelie_build)

subsection \<open>The claims\<close>

text \<open>
  Claim C1, as amended. On a miss (the event has a RecordID and a Title, the lookup succeeds
  and finds nothing), when the service replies with JSON that has the five keys and the
  write succeeds, the handler returns status 200 with the message
  "Record processed and stored." and, as data, the analysis result as it was parsed from
  the reply. The item written to the table is another value: the caller's RecordID, Title
  and OriginalLanguage, then DetectedLanguage, DetectedCode, Confidence (converted with
  \<^verbatim>\<open>str\<close>), Transliteration and Translation. The three calls are logged in order.
\<close>

theorem miss_returns_analysis_result:
  fixes event :: item
  defines "rid \<equiv> dict_get event ''RecordID''"
    and "title \<equiv> dict_get event ''Title''"
  defines "it \<equiv> (\<lambda>L lang code conf translit transl.
             [(''RecordID'', rid), (''Title'', title),
              (''OriginalLanguage'', dict_get event ''OriginalLanguage''),
              (''DetectedLanguage'', lang), (''DetectedCode'', code),
              (''Confidence'', PStr (py_str L conf)),
              (''Transliteration'', translit), (''Translation'', transl)])"
  assumes "truthy rid" "truthy title"
    and "get_fault E = None" "table_get (table w) rid title = None"
    and "chat_create E ''gpt-4o-mini'' (chat_messages L title) = ChatContent c"
    and "json_loads L (strip c) = Some (PDict d)"
    and "map_of d ''DetectedLanguage'' = Some lang"
    and "map_of d ''ISO639LanguageCode'' = Some code"
    and "map_of d ''Confidence'' = Some conf"
    and "map_of d ''Transliteration'' = Some translit"
    and "map_of d ''Translation'' = Some transl"
    and "put_fault E = None"
  shows "lambda_handler L E w event =
           (\<lparr>statusCode = 200,
             body = json_dumps (PDict [(''message'', PStr ''Record processed and stored.''),
                                       (''data'', PDict d)])\<rparr>,
            w\<lparr>table := table_put (table w) (it L lang code conf translit transl),
              calls := calls w @
                [GetItem rid title, ChatCreate ''gpt-4o-mini'' (chat_messages L title),
                 PutItem (it L lang code conf translit transl)]\<rparr>)"
proof -
  have "build_item L rid title (dict_get event ''OriginalLanguage'') (PDict d) =
          Inr (it L lang code conf translit transl)"
    unfolding it_def by (rule build_item_ok) fact+
  from handler_miss_ok[OF assms(4-9)[unfolded rid_def title_def]
      this[unfolded rid_def title_def] assms(15)]
  show ?thesis
    by (simp add: message_body_def rid_def title_def)
qed

theorem miss_returns_analysis_result_witness:
  "lambda_handler scenario_lib (service_replies quoted_content) empty_world amelie_event =
     (\<lparr>statusCode = 200,
       body = json_dumps (PDict [(''message'', PStr ''Record processed and stored.''),
                                 (''data'', PDict quoted_data)])\<rparr>,
      \<lparr>table = [amelie_record],
       calls = [GetItem (PStr ''42'') (PStr ''Amelie''),
                ChatCreate ''gpt-4o-mini'' (chat_messages scenario_lib (PStr ''Amelie'')),
                PutItem amelie_record]\<rparr>)"
  using miss_returns_analysis_result[of amelie_event "service_replies quoted_content"
      empty_world scenario_lib quoted_content quoted_data
      "PStr ''French''" "PStr ''fr''" "PStr ''0.87''" "PStr ''Amelie''" "PStr ''Amelie''"]
  by (simp add: amelie_event_fields service_replies_fields empty_world_fields
        loads_quoted_content)
     (simp add: quoted_data_def amelie_record_def empty_world_def table_put_def)

text \<open>
  The claim as the specification words it fails on the scenario of the specification
  (RecordID 7, the title "La Vita e Bella" with its accent, OriginalLanguage Italian, the
  reply with Confidence 0.95): the item written to the table is \<open>scenario_record\<close>, and
  the data returned is not that record but the reply of the service.
\<close>

theorem miss_data_is_not_the_stored_record:
  "statusCode (fst (lambda_handler scenario_lib (service_replies scenario_content)
       empty_world scenario_event)) = 200
   \<and> table (snd (lambda_handler scenario_lib (service_replies scenario_content)
       empty_world scenario_event)) = [scenario_record]
   \<and> body (fst (lambda_handler scenario_lib (service_replies scenario_content)
       empty_world scenario_event))
      = json_dumps (PDict [(''message'', PStr ''Record processed and stored.''),
                           (''data'', PDict scenario_data)])
   \<and> body (fst (lambda_handler scenario_lib (service_replies scenario_content)
       empty_world scenario_event))
      \<noteq> json_dumps (PDict [(''message'', PStr ''Record processed and stored.''),
                           (''data'', PDict scenario_record)])"
  by (simp add: scenario_run message_body_def json_dumps_def)
     (simp add: scenario_data_def scenario_record_def)






text \<open>
  Claim C4. When RecordID or Title is absent from the event or is the empty string, the
  handler returns status 400 with the body \<^verbatim>\<open>{"error": "RecordID and Title are
  required."}\<close>; the world is returned as it was, so neither the table nor the analysis
  service has been called. The status differs from 501, the status of every other failure.
\<close>

theorem invalid_input_rejected:
  assumes "map_of event ''RecordID'' = None \<or> map_of event ''RecordID'' = Some (PStr [])
         \<or> map_of event ''Title'' = None \<or> map_of event ''Title'' = Some (PStr [])"
  shows "lambda_handler L E w event =
           (\<lparr>statusCode = 400,
             body = json_dumps (PDict [(''error'', PStr ''RecordID and Title are required.'')])\<rparr>,
            w)
       \<and> statusCode (fst (lambda_handler L E w event)) \<noteq> 501"
proof -
  have "\<not> truthy (dict_get event ''RecordID'') \<or> \<not> truthy (dict_get event ''Title'')"
    using assms by (auto simp: dict_get_def)
  then show ?thesis
    by (simp add: handler_invalid error_body_def)
qed

theorem invalid_input_rejected_witness:
  "map_of [(''RecordID'', PStr ''42'')] ''Title'' = None
   \<and> lambda_handler scenario_lib (service_replies quoted_content) empty_world
        [(''RecordID'', PStr ''42'')] =
       (\<lparr>statusCode = 400,
         body = json_dumps (PDict [(''error'', PStr ''RecordID and Title are required.'')])\<rparr>,
        empty_world)"
  using invalid_input_rejected[of "[(''RecordID'', PStr ''42'')]" scenario_lib
      "service_replies quoted_content" empty_world]
  by simp




text \<open>
  Claim C6. On a miss with a successful analysis (the reply parsed and the item built),
  when \<^verbatim>\<open>put_item\<close> fails the handler returns status 501 with a body that holds
  the error message only: "DynamoDB error: " and the message of the store for a
  \<^verbatim>\<open>ClientError\<close>, the text of the exception otherwise. The analysis result is
  not in the response, and the table is unchanged.
\<close>

theorem failed_write_discards_analysis:
  fixes event :: item
  defines "rid \<equiv> dict_get event ''RecordID''"
    and "title \<equiv> dict_get event ''Title''"
  assumes "truthy rid" "truthy title"
    and "get_fault E = None" "table_get (table w) rid title = None"
    and "chat_create E ''gpt-4o-mini'' (chat_messages L title) = ChatContent c"
    and "json_loads L (strip c) = Some data"
    and "build_item L rid title (dict_get event ''OriginalLanguage'') data = Inr it"
    and "put_fault E = Some f"
  shows "lambda_handler L E w event =
           (\<lparr>statusCode = 501,
             body = json_dumps (PDict [(''error'',
                      PStr (case f of ClientError m \<Rightarrow> ''DynamoDB error: '' @ m
                                    | StoreRaises m \<Rightarrow> m))])\<rparr>,
            w\<lparr>calls := calls w @
              [GetItem rid title, ChatCreate ''gpt-4o-mini'' (chat_messages L title),
               PutItem it]\<rparr>)"
  using handler_miss_put_fault[OF assms(3-10)[unfolded rid_def title_def]]
  by (simp add: error_body_def rid_def title_def)

theorem failed_write_discards_analysis_witness:
  "lambda_handler scenario_lib
     ((service_replies quoted_content)\<lparr>put_fault := Some (ClientError ''Throttled'')\<rparr>)
     empty_world amelie_event =
     (\<lparr>statusCode = 501,
       body = json_dumps (PDict [(''error'', PStr ''DynamoDB error: Throttled'')])\<rparr>,
      \<lparr>table = [],
       calls = [GetItem (PStr ''42'') (PStr ''Amelie''),
                ChatCreate ''gpt-4o-mini'' (chat_messages scenario_lib (PStr ''Amelie'')),
                PutItem amelie_record]\<rparr>)"
  using failed_write_discards_analysis[of amelie_event
      "(service_replies quoted_content)\<lparr>put_fault := Some (ClientError ''Throttled'')\<rparr>"
      empty_world scenario_lib quoted_content "PDict quoted_data" amelie_record
      "ClientError ''Throttled''"]
  by (simp add: amelie_event_fields service_replies_fields empty_world_fields
        loads_quoted_content amelie_build)

text \<open>
  Claim C7. The calls that one invocation adds to the log are, in this order, at most one
  \<^verbatim>\<open>get_item\<close>, at most one chat completion and at most one
  \<^verbatim>\<open>put_item\<close>: the log grows by nothing, by the lookup, by the lookup and the
  analysis call, or by all three. The analysis call is made only when the lookup succeeded
  and found nothing; \<^verbatim>\<open>put_item\<close> is called only when the service replied and
  the reply parsed; when the lookup finds a record, neither of the two is called.
\<close>

theorem effects_are_sequential:
  fixes event :: item
  defines "rid \<equiv> dict_get event ''RecordID''"
    and "title \<equiv> dict_get event ''Title''"
  defines "G \<equiv> GetItem rid title"
    and "C \<equiv> (\<lambda>L. ChatCreate ''gpt-4o-mini'' (chat_messages L title))"
  shows "\<exists>new. calls (snd (lambda_handler L E w event)) = calls w @ new
       \<and> (new = [] \<or> new = [G] \<or> new = [G, C L] \<or> (\<exists>it. new = [G, C L, PutItem it]))
       \<and> (C L \<in> set new \<longrightarrow> get_fault E = None \<and> table_get (table w) rid title = None)
       \<and> (\<forall>it. PutItem it \<in> set new \<longrightarrow>
             (\<exists>c data. chat_create E ''gpt-4o-mini'' (chat_messages L title) = ChatContent c
                      \<and> json_loads L (strip c) = Some data))
       \<and> (\<forall>r. get_fault E = None \<and> table_get (table w) rid title = Some r \<longrightarrow>
             C L \<notin> set new \<and> (\<forall>it. PutItem it \<notin> set new))"
proof -
  have eqs: "rid = dict_get event ''RecordID''" "title = dict_get event ''Title''"
    "G = GetItem rid title" "C L = ChatCreate ''gpt-4o-mini'' (chat_messages L title)"
    by (simp_all add: rid_def title_def G_def C_def)
  from eqs(1,2) refl[of "dict_get event ''OriginalLanguage''"] eqs(3,4) show ?thesis
  proof (cases rule: handler_cases[of _ _ _ _ _ _ _ E w])
  case invalid
  then show ?thesis by (intro exI[of _ "[]"]) simp
next
  case (lookup_fails f)
  then show ?thesis by (intro exI[of _ "[G]"]) (simp add: G_def C_def)
next
  case (hit r)
  then show ?thesis by (intro exI[of _ "[G]"]) (simp add: G_def C_def)
next
  case (service_raises m)
  then show ?thesis by (intro exI[of _ "[G, C L]"]) (simp add: G_def C_def)
next
  case (not_json c)
  then show ?thesis by (intro exI[of _ "[G, C L]"]) (simp add: G_def C_def)
next
  case (no_item c data e)
  then show ?thesis by (intro exI[of _ "[G, C L]"]) (simp add: G_def C_def)
next
  case (write_fails c data it f)
  then show ?thesis by (intro exI[of _ "[G, C L, PutItem it]"]) (simp add: G_def C_def)
next
  case (stored c data it)
  then show ?thesis by (intro exI[of _ "[G, C L, PutItem it]"]) (simp add: G_def C_def)
  qed
qed

theorem effects_are_sequential_witness:
  "calls (snd (lambda_handler scenario_lib (service_replies quoted_content) empty_world
      amelie_event)) =
     calls empty_world @
       [GetItem (PStr ''42'') (PStr ''Amelie''),
        ChatCreate ''gpt-4o-mini'' (chat_messages scenario_lib (PStr ''Amelie'')),
        PutItem amelie_record]
   \<and> get_fault (service_replies quoted_content) = None
   \<and> table_get (table empty_world) (PStr ''42'') (PStr ''Amelie'') = None
   \<and> chat_create (service_replies quoted_content) ''gpt-4o-mini''
        (chat_messages scenario_lib (PStr ''Amelie'')) = ChatContent quoted_content
   \<and> json_loads scenario_lib (strip quoted_content) = Some (PDict quoted_data)"
  using effects_are_sequential[of scenario_lib "service_replies quoted_content" empty_world
      amelie_event]
  by (simp add: amelie_run amelie_event_fields service_replies_fields empty_world_fields
        loads_quoted_content)



text \<open>
  Claim C9. When the event has no OriginalLanguage, a miss that reaches the write puts an
  item whose attribute OriginalLanguage is present with the value \<^verbatim>\<open>None\<close>: the
  item is the one passed to \<^verbatim>\<open>put_item\<close>, and it is the item the table holds
  under the key afterwards.
\<close>

theorem absent_original_language_is_stored_as_none:
  fixes event :: item
  defines "rid \<equiv> dict_get event ''RecordID''"
    and "title \<equiv> dict_get event ''Title''"
  assumes "map_of event ''OriginalLanguage'' = None"
    and "truthy rid" "truthy title"
    and "get_fault E = None" "table_get (table w) rid title = None"
    and "chat_create E ''gpt-4o-mini'' (chat_messages L title) = ChatContent c"
    and "json_loads L (strip c) = Some data"
    and "build_item L rid title (dict_get event ''OriginalLanguage'') data = Inr it"
    and "put_fault E = None"
  shows "map_of it ''OriginalLanguage'' = Some PNone
       \<and> PutItem it \<in> set (calls (snd (lambda_handler L E w event)))
       \<and> table_get (table (snd (lambda_handler L E w event))) rid title = Some it"
proof -
  have ol: "dict_get event ''OriginalLanguage'' = PNone"
    using assms(3) by (simp add: dict_get_def)
  have run: "lambda_handler L E w event =
           (\<lparr>statusCode = 200, body = message_body ''Record processed and stored.'' data\<rparr>,
            w\<lparr>table := table_put (table w) it,
              calls := calls w @
                [GetItem rid title, ChatCreate ''gpt-4o-mini'' (chat_messages L title),
                 PutItem it]\<rparr>)"
    unfolding rid_def title_def
    by (rule handler_miss_ok[OF assms(4-10)[unfolded rid_def title_def] assms(11)])
  show ?thesis
    using build_item_fields(1,2)[OF assms(10)]
    by (simp add: run ol table_get_put)
qed

theorem absent_original_language_is_stored_as_none_witness:
  "map_of amelie_event ''OriginalLanguage'' = None
   \<and> map_of amelie_record ''OriginalLanguage'' = Some PNone
   \<and> PutItem amelie_record \<in> set (calls (snd (lambda_handler scenario_lib
         (service_replies quoted_content) empty_world amelie_event)))
   \<and> table_get (table (snd (lambda_handler scenario_lib
         (service_replies quoted_content) empty_world amelie_event)))
        (PStr ''42'') (PStr ''Amelie'') = Some amelie_record"
  using absent_original_language_is_stored_as_none[of amelie_event
      "service_replies quoted_content" empty_world scenario_lib quoted_content
      "PDict quoted_data" amelie_record]
  by (simp add: amelie_event_fields service_replies_fields empty_world_fields
        loads_quoted_content amelie_build)
     (simp add: amelie_event_def)

text \<open>
  Claim C10, as amended. Two invocations with the same event in which the lookup fails or
  succeeds alike and returns the same result, the analysis service gives the same outcome,
  and the write fails or succeeds alike, return the same response, make the same calls
  with the same arguments (so the item passed to \<^verbatim>\<open>put_item\<close> is the same), and
  change their tables by the same write or not at all. The tables may differ in every other
  key and the logs may differ.
\<close>

theorem same_collaborators_same_outcome:
  fixes event :: item
  defines "rid \<equiv> dict_get event ''RecordID''"
    and "title \<equiv> dict_get event ''Title''"
  assumes g: "get_fault E1 = get_fault E2"
    and t: "table_get (table w1) rid title = table_get (table w2) rid title"
    and c: "chat_create E1 ''gpt-4o-mini'' (chat_messages L title) =
         chat_create E2 ''gpt-4o-mini'' (chat_messages L title)"
    and p: "put_fault E1 = put_fault E2"
  shows "fst (lambda_handler L E1 w1 event) = fst (lambda_handler L E2 w2 event)
       \<and> (\<exists>new. calls (snd (lambda_handler L E1 w1 event)) = calls w1 @ new
               \<and> calls (snd (lambda_handler L E2 w2 event)) = calls w2 @ new)
       \<and> (table (snd (lambda_handler L E1 w1 event)) = table w1
            \<and> table (snd (lambda_handler L E2 w2 event)) = table w2
          \<or> (\<exists>it. table (snd (lambda_handler L E1 w1 event)) = table_put (table w1) it
                 \<and> table (snd (lambda_handler L E2 w2 event)) = table_put (table w2) it))"
proof -
  have eqs: "rid = dict_get event ''RecordID''" "title = dict_get event ''Title''"
    by (simp_all add: rid_def title_def)
  from eqs refl[of "dict_get event ''OriginalLanguage''"]
    refl[of "GetItem rid title"] refl[of "ChatCreate ''gpt-4o-mini'' (chat_messages L title)"]
  show ?thesis
  proof (cases rule: handler_cases[of _ _ _ _ _ _ _ E1 w1])
    case invalid
    with handler_invalid[of event L E2 w2] show ?thesis
      by (simp add: eqs)
  next
    case (lookup_fails f)
    with handler_lookup_fails[of event E2 f L w2] g show ?thesis
      by (simp add: eqs)
  next
    case (hit r)
    with handler_hit[of event E2 w2 r L] g t show ?thesis
      by (simp add: eqs log_call_def)
  next
    case (service_raises m)
    with handler_miss_raises[of event E2 w2 L m] g t c show ?thesis
      by (simp add: eqs)
  next
    case (not_json c')
    with handler_miss_not_json[of event E2 w2 L c'] g t c show ?thesis
      by (simp add: eqs)
  next
    case (no_item c' data e)
    with handler_miss_build_fails[of event E2 w2 L c' data e] g t c show ?thesis
      by (simp add: eqs)
  next
    case (write_fails c' data it f)
    with handler_miss_put_fault[of event E2 w2 L c' data it f] g t c p show ?thesis
      by (simp add: eqs)
  next
    case (stored c' data it)
    with handler_miss_ok[of event E2 w2 L c' data it] g t c p show ?thesis
      by (auto simp: eqs)
  qed
qed

theorem same_collaborators_same_outcome_witness:
  "table_get (table empty_world) (PStr ''42'') (PStr ''Amelie'') =
     table_get (table \<lparr>table = [scenario_record], calls = [PutItem scenario_record]\<rparr>)
       (PStr ''42'') (PStr ''Amelie'')
   \<and> fst (lambda_handler scenario_lib (service_replies quoted_content) empty_world amelie_event) =
       fst (lambda_handler scenario_lib (service_replies quoted_content)
         \<lparr>table = [scenario_record], calls = [PutItem scenario_record]\<rparr> amelie_event)"
  using same_collaborators_same_outcome[of "service_replies quoted_content"
      "service_replies quoted_content" empty_world amelie_event
      "\<lparr>table = [scenario_record], calls = [PutItem scenario_record]\<rparr>" scenario_lib]
  by (simp add: amelie_event_fields empty_world_fields table_get_def item_key_def
        scenario_record_def)

text \<open>
  The claim as the specification words it leaves out the outcome of the write. Two
  invocations with the same event, the same empty table, the same lookup outcome and the
  same reply of the service differ in their status when \<^verbatim>\<open>put_item\<close> fails in one
  of them only.
\<close>

theorem write_outcome_changes_the_response:
  "get_fault (service_replies quoted_content) =
     get_fault ((service_replies quoted_content)\<lparr>put_fault := Some (ClientError ''Throttled'')\<rparr>)
   \<and> chat_create (service_replies quoted_content) =
     chat_create ((service_replies quoted_content)\<lparr>put_fault := Some (ClientError ''Throttled'')\<rparr>)
   \<and> statusCode (fst (lambda_handler scenario_lib (service_replies quoted_content)
        empty_world amelie_event)) = 200
   \<and> statusCode (fst (lambda_handler scenario_lib
        ((service_replies quoted_content)\<lparr>put_fault := Some (ClientError ''Throttled'')\<rparr>)
        empty_world amelie_event)) = 501"
  by (simp add: amelie_run amelie_write_fails_run)

end
